theory Spec2Isabelle
  imports Complex_Main "HOL-Library.Word"
begin

section \<open>The path-renderer base class of src/gpu/GrPathRenderer.h\<close>

text \<open>
  The header declares the abstract base class \<^verbatim>\<open>GrPathRenderer\<close>: four public wrappers
  (\<^verbatim>\<open>getStencilSupport\<close>, \<^verbatim>\<open>canDrawPath\<close>, \<^verbatim>\<open>drawPath\<close>, \<^verbatim>\<open>stencilPath\<close>) around four
  virtual functions, the static helper \<^verbatim>\<open>IsStrokeHairlineOrEquivalent\<close> and the declaration
  of \<^verbatim>\<open>GetPathDevBounds\<close>.

  Conventions of the embedding:
  \<^item> a C++ pointer is an \<open>option\<close>, \<open>None\<close> being \<^verbatim>\<open>nullptr\<close>;
  \<^item> the build mode is the first argument \<open>SK_DEBUG\<close> of every function whose body
    contains \<^verbatim>\<open>SkASSERT\<close> or \<^verbatim>\<open>SkDEBUGCODE\<close>; both macros expand to nothing when it is
    \<open>False\<close>;
  \<^item> a failing \<^verbatim>\<open>SkASSERT\<close> halts the program: it is the result \<open>Inl (SkASSERT_failed n)\<close>,
    \<open>n\<close> being the line of the assertion in GrPathRenderer.h;
  \<^item> the GPU state that a renderer's draw mutates is an abstract state \<open>'st\<close>, passed
    in and returned;
  \<^item> a subclass is the record of its virtual functions; a virtual function that has a
    default body in the base class is an optional override.
\<close>

subsection \<open>Types of the collaborating headers\<close>

text \<open>
  The classes below are declared in headers that are not part of the sources at hand
  (SkPath.h, SkRect.h, SkMatrix.h, SkStrokeRec.h, GrStyle.h, GrPaint.h, GrColor.h,
  GrUserStencilSettings.h, GrResourceProvider.h, GrDrawContext.h). Each is reduced to the
  observations that GrPathRenderer.h makes of it.
\<close>

type_synonym 'a ptr = "'a option"

type_synonym SkScalar = real

definition SK_Scalar1 :: SkScalar where
  "SK_Scalar1 = 1"

record SkRect =
  fLeft :: SkScalar
  fTop :: SkScalar
  fRight :: SkScalar
  fBottom :: SkScalar

text \<open>\<^verbatim>\<open>SkRect::MakeWH(w, h)\<close>: the rectangle with its corner at the origin.\<close>

definition MakeWH :: "SkScalar \<Rightarrow> SkScalar \<Rightarrow> SkRect" where
  "MakeWH w h = \<lparr>fLeft = 0, fTop = 0, fRight = w, fBottom = h\<rparr>"

text \<open>The points of a rectangle: left and top edges belong to it, right and bottom do not.\<close>

definition SkRect_contains :: "SkRect \<Rightarrow> SkScalar \<Rightarrow> SkScalar \<Rightarrow> bool" where
  "SkRect_contains r x y \<longleftrightarrow> fLeft r \<le> x \<and> x < fRight r \<and> fTop r \<le> y \<and> y < fBottom r"

definition SkIntToScalar :: "int \<Rightarrow> SkScalar" where
  "SkIntToScalar n = of_int n"

text \<open>A path, as far as this header looks at it: emptiness, fill type, bounds.\<close>

record SkPath =
  isEmpty :: bool
  isInverseFillType :: bool
  getBounds :: SkRect

text \<open>A 3x3 matrix, stored as its nine entries \<^verbatim>\<open>fMat[9]\<close>.\<close>

datatype SkMatrix = SkMatrix (fMat: "SkScalar list")

datatype SkPathEffect = SkPathEffect nat

datatype SkStrokeRec_Style =
  kHairline_Style | kFill_Style | kStroke_Style | kStrokeAndFill_Style

record SkStrokeRec =
  getStyle :: SkStrokeRec_Style
  getWidth :: SkScalar

text \<open>
  Modelled from the spec: \<^verbatim>\<open>SkStrokeRec::isHairlineStyle\<close> and \<^verbatim>\<open>isFillStyle\<close> are defined in
  SkStrokeRec.h. Section 4.6 speaks of a stroke that "is explicitly hairline-styled": both
  compare the stroke's style with one enumerator.
\<close>

definition isHairlineStyle :: "SkStrokeRec \<Rightarrow> bool" where
  "isHairlineStyle s \<longleftrightarrow> getStyle s = kHairline_Style"

definition isFillStyle :: "SkStrokeRec \<Rightarrow> bool" where
  "isFillStyle s \<longleftrightarrow> getStyle s = kFill_Style"

record GrStyle =
  pathEffect :: "SkPathEffect ptr"
  strokeRec :: SkStrokeRec

text \<open>
  Modelled from the spec: \<^verbatim>\<open>GrStyle::isSimpleFill\<close> and \<^verbatim>\<open>GrStyle::SimpleFill\<close> are defined in
  GrStyle.h. Section 4.3 calls a simple fill a "non-dashed, non-path-effect fill".
\<close>

definition isSimpleFill :: "GrStyle \<Rightarrow> bool" where
  "isSimpleFill s \<longleftrightarrow> isFillStyle (strokeRec s) \<and> pathEffect s = None"

definition SimpleFill :: GrStyle where
  "SimpleFill = \<lparr>pathEffect = None, strokeRec = \<lparr>getStyle = kFill_Style, getWidth = - 1\<rparr>\<rparr>"

text \<open>
  Modelled from the spec: \<^verbatim>\<open>GrPaint\<close> is defined in GrPaint.h. The header only ever
  default-constructs one; every other paint is told apart by a number.
\<close>

datatype GrPaint = GrPaint_default | GrPaint_other nat

type_synonym GrColor = "32 word"

text \<open>
  Modelled from the spec: \<^verbatim>\<open>GrColor_WHITE\<close> and the channel accessors are defined in GrColor.h;
  a colour is four 8-bit channels, alpha in the top byte. Section 4.4 calls the colour of the
  default stencil request opaque white.
\<close>

definition GrColor_WHITE :: GrColor where
  "GrColor_WHITE = 0xFFFFFFFF"

definition GrColorUnpackR :: "GrColor \<Rightarrow> nat" where
  "GrColorUnpackR c = unat c mod 256"

definition GrColorUnpackG :: "GrColor \<Rightarrow> nat" where
  "GrColorUnpackG c = (unat c div 256) mod 256"

definition GrColorUnpackB :: "GrColor \<Rightarrow> nat" where
  "GrColorUnpackB c = (unat c div 65536) mod 256"

definition GrColorUnpackA :: "GrColor \<Rightarrow> nat" where
  "GrColorUnpackA c = (unat c div 16777216) mod 256"

datatype GrUserStencilTest =
  kAlwaysIfInClip | kEqualIfInClip | kLessIfInClip | kLEqualIfInClip
  | kAlways | kNever | kGreater | kGEqual | kLess | kLEqual | kEqual | kNotEqual

datatype GrUserStencilOp =
  kKeep | kZero | kReplace | kInvert | kIncWrap | kDecWrap | kIncMaybeClamp | kDecMaybeClamp
  | kZeroClipBit | kSetClipBit | kInvertClipBit
  | kSetClipAndReplaceUserBits | kZeroClipAndUserBits

text \<open>
  Modelled from the spec: \<^verbatim>\<open>GrUserStencilSettings\<close> is defined in GrUserStencilSettings.h.
  Section 3: the user-specified stencil rule set "may be unused, meaning no externally
  imposed stencil semantics". A rule set is either that distinguished unused one or one
  built by \<^verbatim>\<open>StaticInit<Ref, Test, TestMask, PassOp, FailOp, WriteMask>\<close>; \<^verbatim>\<open>isUnused()\<close>
  recognises the former.
\<close>

datatype GrUserStencilSettings =
  kUnused
  | StaticInit "16 word" GrUserStencilTest "16 word" GrUserStencilOp GrUserStencilOp "16 word"

definition isUnused :: "GrUserStencilSettings \<Rightarrow> bool" where
  "isUnused s \<longleftrightarrow> s = kUnused"

datatype GrShaderCaps = GrShaderCaps nat

text \<open>The resource provider: \<open>shaderCaps\<close> is what \<^verbatim>\<open>caps()->shaderCaps()\<close> returns.\<close>

record GrResourceProvider =
  shaderCaps :: "GrShaderCaps ptr"

record GrDrawContext =
  isStencilBufferMultisampled :: bool

datatype GrClip = GrClip nat

datatype GrFixedClip = GrFixedClip nat

subsection \<open>Declarations of the header\<close>

datatype StencilSupport =
  kNoSupport_StencilSupport
  | kStencilOnly_StencilSupport
  | kNoRestriction_StencilSupport

text \<open>The integer value of each enumerator: the three levels are ordered by it.\<close>

fun StencilSupport_value :: "StencilSupport \<Rightarrow> nat" where
  "StencilSupport_value kNoSupport_StencilSupport = 0"
| "StencilSupport_value kStencilOnly_StencilSupport = 1"
| "StencilSupport_value kNoRestriction_StencilSupport = 2"

record CanDrawPathArgs =
  fShaderCaps :: "GrShaderCaps ptr"
  fViewMatrix :: "SkMatrix ptr"
  fPath :: "SkPath ptr"
  fStyle :: "GrStyle ptr"
  fAntiAlias :: bool
  fHasUserStencilSettings :: bool
  fIsStencilBufferMSAA :: bool

record DrawPathArgs =
  fResourceProvider :: "GrResourceProvider ptr"
  fPaint :: "GrPaint ptr"
  fUserStencilSettings :: "GrUserStencilSettings ptr"
  fDrawContext :: "GrDrawContext ptr"
  fClip :: "GrClip ptr"
  fColor :: GrColor
  fViewMatrix :: "SkMatrix ptr"
  fPath :: "SkPath ptr"
  fStyle :: "GrStyle ptr"
  fAntiAlias :: bool
  fGammaCorrect :: bool

record StencilPathArgs =
  fResourceProvider :: "GrResourceProvider ptr"
  fDrawContext :: "GrDrawContext ptr"
  fClip :: "GrFixedClip ptr"
  fViewMatrix :: "SkMatrix ptr"
  fPath :: "SkPath ptr"
  fIsAA :: bool

text \<open>
  A halt of the program. \<open>SkASSERT_failed n\<close>: the assertion on line \<open>n\<close> of the header
  failed. \<open>NullDereference\<close>: a null pointer was dereferenced (no run of the wrappers
  reaches it: every dereference comes after the \<^verbatim>\<open>validate()\<close> that checks the pointer).
\<close>

datatype error = SkASSERT_failed nat | NullDereference

text \<open>
  A concrete path renderer: the virtual functions of a subclass. \<open>None\<close> in an override
  field is a subclass that inherits the body of the base class.
\<close>

record 'st GrPathRenderer =
  onGetStencilSupport_override :: "(SkPath \<Rightarrow> StencilSupport) option"
  onDrawPath :: "DrawPathArgs \<Rightarrow> 'st \<Rightarrow> bool \<times> 'st"
  onCanDrawPath :: "CanDrawPathArgs \<Rightarrow> bool"
  onStencilPath_override :: "(StencilPathArgs \<Rightarrow> 'st \<Rightarrow> 'st) option"

subsection \<open>The stencil-support query (lines 65-68 and 243-245)\<close>

definition GrPathRenderer_onGetStencilSupport :: "SkPath \<Rightarrow> StencilSupport" where
  "GrPathRenderer_onGetStencilSupport path = kNoRestriction_StencilSupport"

definition onGetStencilSupport :: "'st GrPathRenderer \<Rightarrow> SkPath \<Rightarrow> StencilSupport" where
  "onGetStencilSupport this path =
     (case onGetStencilSupport_override this of
        None \<Rightarrow> GrPathRenderer_onGetStencilSupport path
      | Some f \<Rightarrow> f path)"

definition getStencilSupport ::
  "bool \<Rightarrow> 'st GrPathRenderer \<Rightarrow> SkPath \<Rightarrow> error + StencilSupport" where
  "getStencilSupport SK_DEBUG this path =
     (if SK_DEBUG \<and> \<not> (\<not> isInverseFillType path) then Inl (SkASSERT_failed 66)
      else Inr (onGetStencilSupport this path))"

subsection \<open>The capability query (lines 79-109)\<close>

definition CanDrawPathArgs_validate :: "CanDrawPathArgs \<Rightarrow> error + unit" where
  "CanDrawPathArgs_validate a =
     (if fShaderCaps a = None then Inl (SkASSERT_failed 91)
      else if CanDrawPathArgs.fViewMatrix a = None then Inl (SkASSERT_failed 92)
      else case CanDrawPathArgs.fPath a of
        None \<Rightarrow> Inl (SkASSERT_failed 93)
      | Some p \<Rightarrow>
          if CanDrawPathArgs.fStyle a = None then Inl (SkASSERT_failed 94)
          else if \<not> (\<not> isEmpty p) then Inl (SkASSERT_failed 95)
          else Inr ())"

definition canDrawPath ::
  "bool \<Rightarrow> 'st GrPathRenderer \<Rightarrow> CanDrawPathArgs \<Rightarrow> error + bool" where
  "canDrawPath SK_DEBUG this args =
     (if SK_DEBUG then
        (case CanDrawPathArgs_validate args of
           Inl e \<Rightarrow> Inl e
         | Inr _ \<Rightarrow> Inr (onCanDrawPath this args))
      else Inr (onCanDrawPath this args))"

subsection \<open>The draw wrapper (lines 125-175)\<close>

definition DrawPathArgs_validate :: "DrawPathArgs \<Rightarrow> error + unit" where
  "DrawPathArgs_validate a =
     (if DrawPathArgs.fResourceProvider a = None then Inl (SkASSERT_failed 140)
      else if fPaint a = None then Inl (SkASSERT_failed 141)
      else if fUserStencilSettings a = None then Inl (SkASSERT_failed 142)
      else if DrawPathArgs.fDrawContext a = None then Inl (SkASSERT_failed 143)
      else if DrawPathArgs.fClip a = None then Inl (SkASSERT_failed 144)
      else if DrawPathArgs.fViewMatrix a = None then Inl (SkASSERT_failed 145)
      else case DrawPathArgs.fPath a of
        None \<Rightarrow> Inl (SkASSERT_failed 146)
      | Some p \<Rightarrow>
          if DrawPathArgs.fStyle a = None then Inl (SkASSERT_failed 147)
          else if \<not> (\<not> isEmpty p) then Inl (SkASSERT_failed 148)
          else Inr ())"

text \<open>
  The capability query that the debug build of \<^verbatim>\<open>drawPath\<close> derives from its arguments
  (lines 159-167), given the three objects it dereferences on the way.
\<close>

definition drawPath_canArgs ::
  "DrawPathArgs \<Rightarrow> GrResourceProvider \<Rightarrow> GrUserStencilSettings \<Rightarrow> GrDrawContext
     \<Rightarrow> CanDrawPathArgs" where
  "drawPath_canArgs args rp us dc =
     \<lparr>fShaderCaps = shaderCaps rp,
      CanDrawPathArgs.fViewMatrix = DrawPathArgs.fViewMatrix args,
      CanDrawPathArgs.fPath = DrawPathArgs.fPath args,
      CanDrawPathArgs.fStyle = DrawPathArgs.fStyle args,
      CanDrawPathArgs.fAntiAlias = DrawPathArgs.fAntiAlias args,
      fHasUserStencilSettings = (\<not> isUnused us),
      fIsStencilBufferMSAA = isStencilBufferMultisampled dc\<rparr>"

definition drawPath ::
  "bool \<Rightarrow> 'st GrPathRenderer \<Rightarrow> DrawPathArgs \<Rightarrow> 'st \<Rightarrow> error + bool \<times> 'st" where
  "drawPath SK_DEBUG this args st =
     (if SK_DEBUG then
        (case DrawPathArgs_validate args of
           Inl e \<Rightarrow> Inl e
         | Inr _ \<Rightarrow>
            (case DrawPathArgs.fResourceProvider args of
               None \<Rightarrow> Inl NullDereference
             | Some rp \<Rightarrow>
            (case fUserStencilSettings args of
               None \<Rightarrow> Inl NullDereference
             | Some us \<Rightarrow>
            (case DrawPathArgs.fDrawContext args of
               None \<Rightarrow> Inl NullDereference
             | Some dc \<Rightarrow>
            (case canDrawPath SK_DEBUG this (drawPath_canArgs args rp us dc) of
               Inl e \<Rightarrow> Inl e
             | Inr can \<Rightarrow>
                if \<not> can then Inl (SkASSERT_failed 168)
                else if \<not> isUnused us then
                  (case DrawPathArgs.fPath args of
                     None \<Rightarrow> Inl NullDereference
                   | Some path \<Rightarrow>
                  (case getStencilSupport SK_DEBUG this path of
                     Inl e \<Rightarrow> Inl e
                   | Inr s \<Rightarrow>
                      if \<not> (kNoRestriction_StencilSupport = s) then Inl (SkASSERT_failed 170)
                      else
                  (case DrawPathArgs.fStyle args of
                     None \<Rightarrow> Inl NullDereference
                   | Some style \<Rightarrow>
                      if \<not> isSimpleFill style then Inl (SkASSERT_failed 171)
                      else Inr (onDrawPath this args st))))
                else Inr (onDrawPath this args st))))))
      else Inr (onDrawPath this args st))"

subsection \<open>The stencil wrapper and its default body (lines 185-210 and 261-286)\<close>

definition StencilPathArgs_validate :: "StencilPathArgs \<Rightarrow> error + unit" where
  "StencilPathArgs_validate a =
     (if StencilPathArgs.fResourceProvider a = None then Inl (SkASSERT_failed 194)
      else if StencilPathArgs.fDrawContext a = None then Inl (SkASSERT_failed 195)
      else if StencilPathArgs.fViewMatrix a = None then Inl (SkASSERT_failed 196)
      else case StencilPathArgs.fPath a of
        None \<Rightarrow> Inl (SkASSERT_failed 197)
      | Some p \<Rightarrow>
          if \<not> (\<not> isEmpty p) then Inl (SkASSERT_failed 198)
          else Inr ())"

definition kIncrementStencil :: GrUserStencilSettings where
  "kIncrementStencil = StaticInit 0xffff kAlways 0xffff kReplace kReplace 0xffff"

text \<open>
  The request that the default body builds (lines 272-284). \<^verbatim>\<open>DrawPathArgs drawArgs;\<close>
  has no initialiser, so the local starts with indeterminate content \<open>uninit\<close>; ten of its
  eleven members are then assigned, in the order of the source. \<^verbatim>\<open>fClip\<close> is not.
\<close>

definition onStencilPath_drawArgs :: "DrawPathArgs \<Rightarrow> StencilPathArgs \<Rightarrow> DrawPathArgs" where
  "onStencilPath_drawArgs uninit args =
     (let paint = GrPaint_default;
          drawArgs = uninit;
          drawArgs = drawArgs\<lparr>DrawPathArgs.fResourceProvider := StencilPathArgs.fResourceProvider args\<rparr>;
          drawArgs = drawArgs\<lparr>fPaint := Some paint\<rparr>;
          drawArgs = drawArgs\<lparr>fUserStencilSettings := Some kIncrementStencil\<rparr>;
          drawArgs = drawArgs\<lparr>DrawPathArgs.fDrawContext := StencilPathArgs.fDrawContext args\<rparr>;
          drawArgs = drawArgs\<lparr>fColor := GrColor_WHITE\<rparr>;
          drawArgs = drawArgs\<lparr>DrawPathArgs.fViewMatrix := StencilPathArgs.fViewMatrix args\<rparr>;
          drawArgs = drawArgs\<lparr>DrawPathArgs.fPath := StencilPathArgs.fPath args\<rparr>;
          drawArgs = drawArgs\<lparr>DrawPathArgs.fStyle := Some SimpleFill\<rparr>;
          drawArgs = drawArgs\<lparr>DrawPathArgs.fAntiAlias := False\<rparr>;
          drawArgs = drawArgs\<lparr>fGammaCorrect := False\<rparr>
      in drawArgs)"

text \<open>The default body: build the request, call \<^verbatim>\<open>drawPath\<close>, drop its boolean result.\<close>

definition GrPathRenderer_onStencilPath ::
  "bool \<Rightarrow> DrawPathArgs \<Rightarrow> 'st GrPathRenderer \<Rightarrow> StencilPathArgs \<Rightarrow> 'st \<Rightarrow> error + 'st" where
  "GrPathRenderer_onStencilPath SK_DEBUG uninit this args st =
     (case drawPath SK_DEBUG this (onStencilPath_drawArgs uninit args) st of
        Inl e \<Rightarrow> Inl e
      | Inr (drawn, st') \<Rightarrow> Inr st')"

definition onStencilPath ::
  "bool \<Rightarrow> DrawPathArgs \<Rightarrow> 'st GrPathRenderer \<Rightarrow> StencilPathArgs \<Rightarrow> 'st \<Rightarrow> error + 'st" where
  "onStencilPath SK_DEBUG uninit this args st =
     (case onStencilPath_override this of
        None \<Rightarrow> GrPathRenderer_onStencilPath SK_DEBUG uninit this args st
      | Some f \<Rightarrow> Inr (f args st))"

definition stencilPath ::
  "bool \<Rightarrow> DrawPathArgs \<Rightarrow> 'st GrPathRenderer \<Rightarrow> StencilPathArgs \<Rightarrow> 'st \<Rightarrow> error + 'st" where
  "stencilPath SK_DEBUG uninit this args st =
     (if SK_DEBUG then
        (case StencilPathArgs_validate args of
           Inl e \<Rightarrow> Inl e
         | Inr _ \<Rightarrow>
            (case StencilPathArgs.fPath args of
               None \<Rightarrow> Inl NullDereference
             | Some path \<Rightarrow>
            (case getStencilSupport SK_DEBUG this path of
               Inl e \<Rightarrow> Inl e
             | Inr s \<Rightarrow>
                if \<not> (kNoSupport_StencilSupport \<noteq> s) then Inl (SkASSERT_failed 208)
                else onStencilPath SK_DEBUG uninit this args st)))
      else onStencilPath SK_DEBUG uninit this args st)"

subsection \<open>The hairline test (lines 214-228)\<close>

text \<open>
  \<^verbatim>\<open>SkScalar* outCoverage\<close> points into a store of scalars, or is null. The function returns
  its boolean and the store it leaves behind. \<^verbatim>\<open>SkDrawTreatAAStrokeAsHairline\<close> is declared
  in SkDrawProcs.h and defined elsewhere; it is the parameter \<open>treatAA\<close>, given the stroke
  width, the matrix, the pointer and the store. The right operand of \<^verbatim>\<open>&&\<close> is evaluated
  only when the left one holds.
\<close>

type_synonym addr = nat

type_synonym store = "addr \<Rightarrow> SkScalar"

type_synonym TreatAAStrokeAsHairline =
  "SkScalar \<Rightarrow> SkMatrix \<Rightarrow> addr ptr \<Rightarrow> store \<Rightarrow> bool \<times> store"

definition IsStrokeHairlineOrEquivalent ::
  "TreatAAStrokeAsHairline \<Rightarrow> GrStyle \<Rightarrow> SkMatrix \<Rightarrow> addr ptr \<Rightarrow> store \<Rightarrow> bool \<times> store" where
  "IsStrokeHairlineOrEquivalent treatAA style matrix outCoverage mem =
     (if pathEffect style \<noteq> None then (False, mem)
      else
        let stroke = strokeRec style in
        if isHairlineStyle stroke then
          (case outCoverage of
             Some a \<Rightarrow> (True, mem(a := SK_Scalar1))
           | None \<Rightarrow> (True, mem))
        else if getStyle stroke = kStroke_Style
          then treatAA (getWidth stroke) matrix outCoverage mem
          else (False, mem))"

subsection \<open>The device bounds of a path (declared on lines 233-237)\<close>

text \<open>
  Modelled from the spec: \<^verbatim>\<open>GrPathRenderer::GetPathDevBounds\<close> is only declared in the header;
  its body (GrPathRenderer.cpp) is missing. Section 4.7: "For a normal (non-inverse) fill,
  computes the transformed bounding box of the path geometry (may extend beyond the device
  extent). For an inverse-fill path, returns the full device rectangle
  [0, deviceWidth) x [0, deviceHeight) regardless of path geometry." The matrix's action on
  a rectangle, \<^verbatim>\<open>SkMatrix::mapRect\<close>, belongs to the geometry library and is the parameter
  \<open>mapRect\<close>; the result written through \<^verbatim>\<open>SkRect* bounds\<close> is the value returned.
\<close>

definition GetPathDevBounds ::
  "(SkMatrix \<Rightarrow> SkRect \<Rightarrow> SkRect) \<Rightarrow> SkPath \<Rightarrow> int \<Rightarrow> int \<Rightarrow> SkMatrix \<Rightarrow> SkRect" where
  "GetPathDevBounds mapRect path devW devH matrix =
     (if isInverseFillType path then MakeWH (SkIntToScalar devW) (SkIntToScalar devH)
      else mapRect matrix (getBounds path))"

subsection \<open>Sample objects\<close>

text \<open>
  Concrete paths, requests and renderers on which the results below are run. The state of
  the sample renderers is a natural number, the number of draws issued so far.
\<close>

definition ex_bounds :: SkRect where
  "ex_bounds = \<lparr>fLeft = - 5, fTop = - 5, fRight = 2000, fBottom = 10\<rparr>"

definition ex_path :: SkPath where
  "ex_path = \<lparr>isEmpty = False, isInverseFillType = False, getBounds = ex_bounds\<rparr>"

definition ex_inverse_path :: SkPath where
  "ex_inverse_path = \<lparr>isEmpty = False, isInverseFillType = True, getBounds = ex_bounds\<rparr>"

definition ex_empty_path :: SkPath where
  "ex_empty_path = \<lparr>isEmpty = True, isInverseFillType = False, getBounds = MakeWH 0 0\<rparr>"

definition ex_matrix :: SkMatrix where
  "ex_matrix = SkMatrix [1, 0, 0, 0, 1, 0, 0, 0, 1]"

definition ex_provider :: GrResourceProvider where
  "ex_provider = \<lparr>shaderCaps = Some (GrShaderCaps 0)\<rparr>"

definition ex_context :: GrDrawContext where
  "ex_context = \<lparr>isStencilBufferMultisampled = False\<rparr>"

definition ex_stencil_args :: StencilPathArgs where
  "ex_stencil_args =
     \<lparr>StencilPathArgs.fResourceProvider = Some ex_provider,
      StencilPathArgs.fDrawContext = Some ex_context,
      StencilPathArgs.fClip = Some (GrFixedClip 0),
      StencilPathArgs.fViewMatrix = Some ex_matrix,
      StencilPathArgs.fPath = Some ex_path,
      fIsAA = False\<rparr>"

definition ex_empty_stencil_args :: StencilPathArgs where
  "ex_empty_stencil_args = ex_stencil_args\<lparr>StencilPathArgs.fPath := Some ex_empty_path\<rparr>"

text \<open>A stroked, anti-aliased draw with no user stencil rules.\<close>

definition ex_stroke :: GrStyle where
  "ex_stroke = \<lparr>pathEffect = None, strokeRec = \<lparr>getStyle = kStroke_Style, getWidth = 3\<rparr>\<rparr>"

definition ex_draw_args :: DrawPathArgs where
  "ex_draw_args =
     \<lparr>DrawPathArgs.fResourceProvider = Some ex_provider,
      fPaint = Some (GrPaint_other 1),
      fUserStencilSettings = Some kUnused,
      DrawPathArgs.fDrawContext = Some ex_context,
      DrawPathArgs.fClip = Some (GrClip 0),
      fColor = 0xFF0000FF,
      DrawPathArgs.fViewMatrix = Some ex_matrix,
      DrawPathArgs.fPath = Some ex_path,
      DrawPathArgs.fStyle = Some ex_stroke,
      DrawPathArgs.fAntiAlias = True,
      fGammaCorrect = False\<rparr>"

text \<open>The same draw under user stencil rules, and the content of an unassigned local.\<close>

definition ex_stencilled_draw_args :: DrawPathArgs where
  "ex_stencilled_draw_args = ex_draw_args\<lparr>fUserStencilSettings := Some kIncrementStencil\<rparr>"

definition ex_uninit :: DrawPathArgs where
  "ex_uninit =
     \<lparr>DrawPathArgs.fResourceProvider = None,
      fPaint = None,
      fUserStencilSettings = None,
      DrawPathArgs.fDrawContext = None,
      DrawPathArgs.fClip = Some (GrClip 7),
      fColor = 0x12345678,
      DrawPathArgs.fViewMatrix = None,
      DrawPathArgs.fPath = None,
      DrawPathArgs.fStyle = None,
      DrawPathArgs.fAntiAlias = True,
      fGammaCorrect = True\<rparr>"

definition ex_draw :: "DrawPathArgs \<Rightarrow> nat \<Rightarrow> bool \<times> nat" where
  "ex_draw args n = (True, Suc n)"

definition ex_accept :: "CanDrawPathArgs \<Rightarrow> bool" where
  "ex_accept args = True"

text \<open>A renderer that accepts only requests without user stencil rules.\<close>

definition ex_accept_unstencilled :: "CanDrawPathArgs \<Rightarrow> bool" where
  "ex_accept_unstencilled args = (\<not> fHasUserStencilSettings args)"

definition ex_renderer :: "nat GrPathRenderer" where
  "ex_renderer =
     \<lparr>onGetStencilSupport_override = None,
      onDrawPath = ex_draw,
      onCanDrawPath = ex_accept,
      onStencilPath_override = None\<rparr>"

definition ex_picky_renderer :: "nat GrPathRenderer" where
  "ex_picky_renderer = ex_renderer\<lparr>onCanDrawPath := ex_accept_unstencilled\<rparr>"

definition ex_stencil_only :: "SkPath \<Rightarrow> StencilSupport" where
  "ex_stencil_only path = kStencilOnly_StencilSupport"

definition ex_stencil_only_renderer :: "nat GrPathRenderer" where
  "ex_stencil_only_renderer =
     ex_renderer\<lparr>onGetStencilSupport_override := Some ex_stencil_only\<rparr>"

definition ex_no_support :: "SkPath \<Rightarrow> StencilSupport" where
  "ex_no_support path = kNoSupport_StencilSupport"

definition ex_no_support_renderer :: "nat GrPathRenderer" where
  "ex_no_support_renderer =
     ex_renderer\<lparr>onGetStencilSupport_override := Some ex_no_support\<rparr>"

text \<open>A classifier that answers differently for inverse-fill paths.\<close>

definition ex_classifier :: "SkPath \<Rightarrow> StencilSupport" where
  "ex_classifier path =
     (if isInverseFillType path then kNoSupport_StencilSupport
      else kStencilOnly_StencilSupport)"

definition ex_stencil :: "StencilPathArgs \<Rightarrow> nat \<Rightarrow> nat" where
  "ex_stencil args n = n + 100"

definition ex_classifying_renderer :: "nat GrPathRenderer" where
  "ex_classifying_renderer =
     ex_renderer\<lparr>onGetStencilSupport_override := Some ex_classifier,
                 onStencilPath_override := Some ex_stencil\<rparr>"

text \<open>
  Styles for the hairline test, a store whose cells all hold 0, and a thin-stroke test that
  accepts widths up to one pixel, reports the width as the coverage and writes it only
  through a non-null pointer.
\<close>

definition ex_dashed :: GrStyle where
  "ex_dashed =
     \<lparr>pathEffect = Some (SkPathEffect 0),
      strokeRec = \<lparr>getStyle = kHairline_Style, getWidth = 0\<rparr>\<rparr>"

definition ex_hairline :: GrStyle where
  "ex_hairline = \<lparr>pathEffect = None, strokeRec = \<lparr>getStyle = kHairline_Style, getWidth = 0\<rparr>\<rparr>"

definition ex_thin_stroke :: GrStyle where
  "ex_thin_stroke =
     \<lparr>pathEffect = None, strokeRec = \<lparr>getStyle = kStroke_Style, getWidth = 1 / 2\<rparr>\<rparr>"

definition ex_store :: store where
  "ex_store a = 0"

definition ex_treatAA :: TreatAAStrokeAsHairline where
  "ex_treatAA width matrix coverage mem =
     (if width \<le> 1
      then (True, case coverage of None \<Rightarrow> mem | Some a \<Rightarrow> mem(a := width))
      else (False, mem))"

text \<open>The action of the identity matrix on a rectangle.\<close>

definition ex_mapRect :: "SkMatrix \<Rightarrow> SkRect \<Rightarrow> SkRect" where
  "ex_mapRect matrix r = r"

section \<open>Auxiliary facts\<close>

subsection \<open>The wrappers, unfolded\<close>

lemma DrawPathArgs_validate_ok:
  "DrawPathArgs_validate a = Inr () \<longleftrightarrow>
     DrawPathArgs.fResourceProvider a \<noteq> None \<and> fPaint a \<noteq> None
     \<and> fUserStencilSettings a \<noteq> None \<and> DrawPathArgs.fDrawContext a \<noteq> None
     \<and> DrawPathArgs.fClip a \<noteq> None \<and> DrawPathArgs.fViewMatrix a \<noteq> None
     \<and> (\<exists>p. DrawPathArgs.fPath a = Some p \<and> \<not> isEmpty p)
     \<and> DrawPathArgs.fStyle a \<noteq> None"
  by (auto simp add: DrawPathArgs_validate_def split: option.splits)

lemma drawPath_release: "drawPath False this args st = Inr (onDrawPath this args st)"
  by (simp add: drawPath_def)

lemma drawPath_debug_unfold:
  assumes "DrawPathArgs_validate args = Inr ()"
    and "DrawPathArgs.fResourceProvider args = Some rp"
    and "fUserStencilSettings args = Some us"
    and "DrawPathArgs.fDrawContext args = Some dc"
    and "DrawPathArgs.fPath args = Some path"
    and "DrawPathArgs.fStyle args = Some style"
  shows "drawPath True this args st =
     (case canDrawPath True this (drawPath_canArgs args rp us dc) of
        Inl e \<Rightarrow> Inl e
      | Inr can \<Rightarrow>
          if \<not> can then Inl (SkASSERT_failed 168)
          else if isUnused us then Inr (onDrawPath this args st)
          else (case getStencilSupport True this path of
                  Inl e \<Rightarrow> Inl e
                | Inr s \<Rightarrow>
                    if s \<noteq> kNoRestriction_StencilSupport then Inl (SkASSERT_failed 170)
                    else if \<not> isSimpleFill style then Inl (SkASSERT_failed 171)
                    else Inr (onDrawPath this args st)))"
  using assms by (simp add: drawPath_def split: sum.splits)

lemma drawPath_debug_sound:
  assumes "drawPath True this args st = Inr res"
  shows "\<exists>rp us dc path style.
        DrawPathArgs.fResourceProvider args = Some rp
      \<and> fUserStencilSettings args = Some us
      \<and> DrawPathArgs.fDrawContext args = Some dc
      \<and> DrawPathArgs.fPath args = Some path
      \<and> DrawPathArgs.fStyle args = Some style
      \<and> DrawPathArgs_validate args = Inr ()
      \<and> canDrawPath True this (drawPath_canArgs args rp us dc) = Inr True
      \<and> (\<not> isUnused us \<longrightarrow>
            getStencilSupport True this path = Inr kNoRestriction_StencilSupport
            \<and> isSimpleFill style)
      \<and> res = onDrawPath this args st"
proof -
  from assms have v: "DrawPathArgs_validate args = Inr ()"
    by (simp add: drawPath_def split: sum.splits)
  then obtain rp us dc path style where p:
    "DrawPathArgs.fResourceProvider args = Some rp" "fUserStencilSettings args = Some us"
    "DrawPathArgs.fDrawContext args = Some dc" "DrawPathArgs.fPath args = Some path"
    "DrawPathArgs.fStyle args = Some style"
    by (auto simp add: DrawPathArgs_validate_ok)
  from assms show ?thesis
    unfolding drawPath_debug_unfold [OF v p]
    using v p by (auto split: sum.splits if_splits)
qed

lemma StencilPathArgs_validate_ok:
  "StencilPathArgs_validate a = Inr () \<longleftrightarrow>
     StencilPathArgs.fResourceProvider a \<noteq> None \<and> StencilPathArgs.fDrawContext a \<noteq> None
     \<and> StencilPathArgs.fViewMatrix a \<noteq> None
     \<and> (\<exists>p. StencilPathArgs.fPath a = Some p \<and> \<not> isEmpty p)"
  by (auto simp add: StencilPathArgs_validate_def split: option.splits)

lemma stencilPath_release:
  "stencilPath False uninit this args st = onStencilPath False uninit this args st"
  by (simp add: stencilPath_def)

lemma stencilPath_debug_unfold:
  assumes "StencilPathArgs_validate args = Inr ()"
    and "StencilPathArgs.fPath args = Some path"
  shows "stencilPath True uninit this args st =
     (case getStencilSupport True this path of
        Inl e \<Rightarrow> Inl e
      | Inr s \<Rightarrow>
          if s = kNoSupport_StencilSupport then Inl (SkASSERT_failed 208)
          else onStencilPath True uninit this args st)"
  using assms by (auto simp add: stencilPath_def split: sum.splits)

lemma stencilPath_debug_halts_or_dispatches:
  "(\<exists>e. stencilPath True uninit this args st = Inl e)
   \<or> (\<exists>path. StencilPathArgs_validate args = Inr () \<and> StencilPathArgs.fPath args = Some path
        \<and> \<not> isInverseFillType path
        \<and> onGetStencilSupport this path \<noteq> kNoSupport_StencilSupport
        \<and> stencilPath True uninit this args st = onStencilPath True uninit this args st)"
proof (cases "StencilPathArgs_validate args")
  case (Inl e)
  then show ?thesis by (simp add: stencilPath_def)
next
  case (Inr u)
  then have v: "StencilPathArgs_validate args = Inr ()" by simp
  then obtain path where p: "StencilPathArgs.fPath args = Some path"
    by (auto simp add: StencilPathArgs_validate_ok)
  show ?thesis
    unfolding stencilPath_debug_unfold [OF v p]
    using v p by (auto simp add: getStencilSupport_def)
qed

lemma onStencilPath_drawArgs_literal:
  "onStencilPath_drawArgs uninit args =
     \<lparr>DrawPathArgs.fResourceProvider = StencilPathArgs.fResourceProvider args,
      fPaint = Some GrPaint_default,
      fUserStencilSettings = Some (StaticInit 0xffff kAlways 0xffff kReplace kReplace 0xffff),
      DrawPathArgs.fDrawContext = StencilPathArgs.fDrawContext args,
      DrawPathArgs.fClip = DrawPathArgs.fClip uninit,
      fColor = GrColor_WHITE,
      DrawPathArgs.fViewMatrix = StencilPathArgs.fViewMatrix args,
      DrawPathArgs.fPath = StencilPathArgs.fPath args,
      DrawPathArgs.fStyle = Some SimpleFill,
      DrawPathArgs.fAntiAlias = False,
      fGammaCorrect = False\<rparr>"
  by (simp add: onStencilPath_drawArgs_def kIncrementStencil_def)

lemma onStencilPath_default:
  "onStencilPath_override this = None \<Longrightarrow>
   onStencilPath SK_DEBUG uninit this args st =
     (case drawPath SK_DEBUG this (onStencilPath_drawArgs uninit args) st of
        Inl e \<Rightarrow> Inl e
      | Inr (drawn, st') \<Rightarrow> Inr st')"
  by (simp add: onStencilPath_def GrPathRenderer_onStencilPath_def)

lemma drawPath_not_208:
  "drawPath SK_DEBUG this args st \<noteq> Inl (SkASSERT_failed 208)"
  by (auto simp add: drawPath_def DrawPathArgs_validate_def canDrawPath_def
      CanDrawPathArgs_validate_def getStencilSupport_def
      split: option.splits sum.splits if_splits)

lemma onStencilPath_not_208:
  "onStencilPath SK_DEBUG uninit this args st \<noteq> Inl (SkASSERT_failed 208)"
  using drawPath_not_208 [of SK_DEBUG this "onStencilPath_drawArgs uninit args" st]
  by (auto simp add: onStencilPath_def GrPathRenderer_onStencilPath_def
      split: option.splits sum.splits)

subsection \<open>The sample objects, evaluated\<close>

lemma ex_draw_args_fields:
  "DrawPathArgs_validate ex_draw_args = Inr ()"
  "DrawPathArgs.fResourceProvider ex_draw_args = Some ex_provider"
  "fUserStencilSettings ex_draw_args = Some kUnused"
  "DrawPathArgs.fDrawContext ex_draw_args = Some ex_context"
  "DrawPathArgs.fPath ex_draw_args = Some ex_path"
  "DrawPathArgs.fStyle ex_draw_args = Some ex_stroke"
  by (simp_all add: ex_draw_args_def DrawPathArgs_validate_def ex_path_def)

lemma ex_stencilled_draw_args_fields:
  "DrawPathArgs_validate ex_stencilled_draw_args = Inr ()"
  "DrawPathArgs.fResourceProvider ex_stencilled_draw_args = Some ex_provider"
  "fUserStencilSettings ex_stencilled_draw_args = Some kIncrementStencil"
  "DrawPathArgs.fDrawContext ex_stencilled_draw_args = Some ex_context"
  "DrawPathArgs.fPath ex_stencilled_draw_args = Some ex_path"
  "DrawPathArgs.fStyle ex_stencilled_draw_args = Some ex_stroke"
  by (simp_all add: ex_stencilled_draw_args_def ex_draw_args_def DrawPathArgs_validate_def
      ex_path_def)

lemma ex_canDrawPath:
  "canDrawPath True ex_renderer (drawPath_canArgs ex_draw_args ex_provider kUnused ex_context)
     = Inr True"
  "canDrawPath True ex_renderer
     (drawPath_canArgs ex_stencilled_draw_args ex_provider kIncrementStencil ex_context)
     = Inr True"
  "canDrawPath True ex_stencil_only_renderer
     (drawPath_canArgs ex_stencilled_draw_args ex_provider kIncrementStencil ex_context)
     = Inr True"
  "canDrawPath True ex_picky_renderer
     (drawPath_canArgs ex_stencilled_draw_args ex_provider kIncrementStencil ex_context)
     = Inr False"
  by (simp_all add: canDrawPath_def CanDrawPathArgs_validate_def drawPath_canArgs_def
      ex_stencilled_draw_args_def ex_draw_args_def ex_provider_def ex_path_def
      ex_renderer_def ex_stencil_only_renderer_def ex_picky_renderer_def ex_accept_def
      ex_accept_unstencilled_def isUnused_def kIncrementStencil_def)

lemma ex_getStencilSupport:
  "getStencilSupport True ex_renderer ex_path = Inr kNoRestriction_StencilSupport"
  "getStencilSupport True ex_stencil_only_renderer ex_path = Inr kStencilOnly_StencilSupport"
  by (simp_all add: getStencilSupport_def onGetStencilSupport_def
      GrPathRenderer_onGetStencilSupport_def ex_renderer_def ex_stencil_only_renderer_def
      ex_stencil_only_def ex_path_def)

lemma ex_misc:
  "isUnused kUnused" "\<not> isUnused kIncrementStencil" "\<not> isSimpleFill ex_stroke"
  "isSimpleFill SimpleFill"
  by (simp_all add: isUnused_def kIncrementStencil_def isSimpleFill_def isFillStyle_def
      ex_stroke_def SimpleFill_def)

lemma ex_onDrawPath:
  "onDrawPath ex_renderer args n = (True, Suc n)"
  "onDrawPath ex_picky_renderer args n = (True, Suc n)"
  "onDrawPath ex_stencil_only_renderer args n = (True, Suc n)"
  by (simp_all add: ex_renderer_def ex_picky_renderer_def ex_stencil_only_renderer_def
      ex_draw_def)




lemma ex_stencil_args_fields:
  "StencilPathArgs_validate ex_stencil_args = Inr ()"
  "StencilPathArgs.fPath ex_stencil_args = Some ex_path"
  "StencilPathArgs.fResourceProvider ex_stencil_args = Some ex_provider"
  "StencilPathArgs.fDrawContext ex_stencil_args = Some ex_context"
  "StencilPathArgs.fPath ex_empty_stencil_args = Some ex_empty_path"
  "StencilPathArgs_validate ex_empty_stencil_args = Inl (SkASSERT_failed 198)"
  by (simp_all add: ex_stencil_args_def ex_empty_stencil_args_def StencilPathArgs_validate_def
      ex_path_def ex_empty_path_def)

lemma ex_getStencilSupport_more:
  "getStencilSupport True ex_no_support_renderer ex_path = Inr kNoSupport_StencilSupport"
  "getStencilSupport True ex_classifying_renderer ex_path = Inr kStencilOnly_StencilSupport"
  "getStencilSupport True ex_classifying_renderer ex_empty_path
     = Inr kStencilOnly_StencilSupport"
  by (simp_all add: getStencilSupport_def onGetStencilSupport_def ex_no_support_renderer_def
      ex_classifying_renderer_def ex_renderer_def ex_no_support_def ex_classifier_def
      ex_path_def ex_empty_path_def)

lemma ex_overrides:
  "onStencilPath_override ex_classifying_renderer = Some ex_stencil"
  "onStencilPath_override ex_renderer = None"
  "onStencilPath_override ex_stencil_only_renderer = None"
  "onGetStencilSupport ex_stencil_only_renderer ex_path = kStencilOnly_StencilSupport"
  by (simp_all add: ex_classifying_renderer_def ex_renderer_def ex_stencil_only_renderer_def
      onGetStencilSupport_def ex_stencil_only_def)


lemma ex_request_fields:
  "DrawPathArgs_validate (onStencilPath_drawArgs ex_uninit ex_stencil_args) = Inr ()"
  "DrawPathArgs.fResourceProvider (onStencilPath_drawArgs ex_uninit ex_stencil_args)
     = Some ex_provider"
  "fUserStencilSettings (onStencilPath_drawArgs ex_uninit ex_stencil_args)
     = Some kIncrementStencil"
  "DrawPathArgs.fDrawContext (onStencilPath_drawArgs ex_uninit ex_stencil_args)
     = Some ex_context"
  "DrawPathArgs.fPath (onStencilPath_drawArgs ex_uninit ex_stencil_args) = Some ex_path"
  "DrawPathArgs.fStyle (onStencilPath_drawArgs ex_uninit ex_stencil_args) = Some SimpleFill"
  by (simp_all add: onStencilPath_drawArgs_literal DrawPathArgs_validate_def
      ex_stencil_args_def ex_uninit_def ex_path_def kIncrementStencil_def)

lemma ex_request_canDrawPath:
  "canDrawPath True ex_renderer
     (drawPath_canArgs (onStencilPath_drawArgs ex_uninit ex_stencil_args)
        ex_provider kIncrementStencil ex_context) = Inr True"
  "canDrawPath True ex_stencil_only_renderer
     (drawPath_canArgs (onStencilPath_drawArgs ex_uninit ex_stencil_args)
        ex_provider kIncrementStencil ex_context) = Inr True"
  by (simp_all add: canDrawPath_def CanDrawPathArgs_validate_def drawPath_canArgs_def
      onStencilPath_drawArgs_literal ex_stencil_args_def ex_provider_def ex_path_def
      ex_renderer_def ex_stencil_only_renderer_def ex_accept_def)

lemma ex_request_drawPath:
  "drawPath True ex_renderer (onStencilPath_drawArgs ex_uninit ex_stencil_args) 0
     = Inr (True, 1)"
  "drawPath True ex_stencil_only_renderer (onStencilPath_drawArgs ex_uninit ex_stencil_args) 0
     = Inl (SkASSERT_failed 170)"
  by (simp_all add: drawPath_debug_unfold [OF ex_request_fields] ex_request_canDrawPath
      ex_misc ex_getStencilSupport ex_onDrawPath)

lemma white_channels:
  "GrColorUnpackR GrColor_WHITE = 255" "GrColorUnpackG GrColor_WHITE = 255"
  "GrColorUnpackB GrColor_WHITE = 255" "GrColorUnpackA GrColor_WHITE = 255"
  by (simp_all add: GrColor_WHITE_def GrColorUnpackR_def GrColorUnpackG_def
      GrColorUnpackB_def GrColorUnpackA_def)


lemma ex_styles:
  "pathEffect ex_dashed \<noteq> None"
  "pathEffect ex_hairline = None" "isHairlineStyle (strokeRec ex_hairline)"
  "pathEffect ex_thin_stroke = None" "\<not> isHairlineStyle (strokeRec ex_thin_stroke)"
  "getStyle (strokeRec ex_thin_stroke) = kStroke_Style"
  "getWidth (strokeRec ex_thin_stroke) = 1 / 2"
  "pathEffect SimpleFill = None" "\<not> isHairlineStyle (strokeRec SimpleFill)"
  "getStyle (strokeRec SimpleFill) \<noteq> kStroke_Style"
  by (simp_all add: ex_dashed_def ex_hairline_def ex_thin_stroke_def SimpleFill_def
      isHairlineStyle_def)

lemma ex_treatAA_thin:
  "ex_treatAA (1 / 2) matrix (Some a) mem = (True, mem(a := 1 / 2))"
  "ex_treatAA (1 / 2) matrix None mem = (True, mem)"
  by (simp_all add: ex_treatAA_def)

section \<open>Results\<close>

subsection \<open>The stencil-support query\<close>

text \<open>
  Claim C6. A renderer that does not override \<^verbatim>\<open>onGetStencilSupport\<close> answers
  \<^verbatim>\<open>kNoRestriction_StencilSupport\<close> for every path that is not inverse-filled, in both
  build modes. Whatever a renderer answers, overriding or not, is never above that default
  in the order of the enumeration: an override can only declare a weaker level.
\<close>

theorem getStencilSupport_default:
  "(onGetStencilSupport_override this = None \<longrightarrow> \<not> isInverseFillType path \<longrightarrow>
      getStencilSupport SK_DEBUG this path = Inr kNoRestriction_StencilSupport)
   \<and> (getStencilSupport SK_DEBUG that path = Inr s \<longrightarrow>
        StencilSupport_value s \<le> StencilSupport_value (GrPathRenderer_onGetStencilSupport path)
        \<and> (s \<noteq> GrPathRenderer_onGetStencilSupport path \<longrightarrow>
             StencilSupport_value s < StencilSupport_value (GrPathRenderer_onGetStencilSupport path)))"
  by (cases s)
     (simp_all add: getStencilSupport_def onGetStencilSupport_def
        GrPathRenderer_onGetStencilSupport_def)

theorem getStencilSupport_default_witness:
  "onGetStencilSupport_override ex_renderer = None
   \<and> \<not> isInverseFillType ex_path
   \<and> getStencilSupport True ex_renderer ex_path = Inr kNoRestriction_StencilSupport
   \<and> getStencilSupport True ex_stencil_only_renderer ex_path = Inr kStencilOnly_StencilSupport
   \<and> StencilSupport_value kStencilOnly_StencilSupport
       < StencilSupport_value (GrPathRenderer_onGetStencilSupport ex_path)"
  using getStencilSupport_default
    [of ex_renderer ex_path True ex_stencil_only_renderer kStencilOnly_StencilSupport]
  by (simp add: ex_renderer_def ex_path_def ex_stencil_only_renderer_def ex_stencil_only_def
      getStencilSupport_def onGetStencilSupport_def GrPathRenderer_onGetStencilSupport_def)

text \<open>
  Claim C7, as stated, fails in the optimised build: the assertion on line 66 is compiled
  out, and an inverse-fill path handed to \<^verbatim>\<open>getStencilSupport\<close> goes on to the renderer's
  classifier. Here the answer \<^verbatim>\<open>kNoSupport_StencilSupport\<close> is the one that the sample
  classifier gives for inverse-fill paths only.
\<close>

theorem getStencilSupport_release_inverse_reaches_classifier:
  "isInverseFillType ex_inverse_path
   \<and> onGetStencilSupport_override ex_classifying_renderer = Some ex_classifier
   \<and> getStencilSupport False ex_classifying_renderer ex_inverse_path
       = Inr (ex_classifier ex_inverse_path)
   \<and> ex_classifier ex_inverse_path = kNoSupport_StencilSupport
   \<and> ex_classifier ex_path \<noteq> kNoSupport_StencilSupport"
  by (simp add: getStencilSupport_def onGetStencilSupport_def ex_classifying_renderer_def
      ex_renderer_def ex_classifier_def ex_inverse_path_def ex_path_def)

text \<open>
  Claim C7, amended. In the debug build a call with an inverse-fill path halts on the
  assertion of line 66, whatever the renderer, so the classifier never sees such a path;
  a call with any other path passes the assertion and returns the classifier's answer. In
  the optimised build nothing is checked: every path, inverse-filled or not, is passed to
  the classifier.
\<close>

theorem getStencilSupport_precondition:
  "(isInverseFillType path \<longrightarrow>
      getStencilSupport True this path = Inl (SkASSERT_failed 66))
   \<and> (\<not> isInverseFillType path \<longrightarrow>
        getStencilSupport True this path = Inr (onGetStencilSupport this path))
   \<and> getStencilSupport False this path = Inr (onGetStencilSupport this path)"
  by (simp add: getStencilSupport_def)

theorem getStencilSupport_precondition_witness:
  "isInverseFillType ex_inverse_path
   \<and> getStencilSupport True ex_classifying_renderer ex_inverse_path = Inl (SkASSERT_failed 66)
   \<and> \<not> isInverseFillType ex_path
   \<and> getStencilSupport True ex_classifying_renderer ex_path = Inr kStencilOnly_StencilSupport"
  using getStencilSupport_precondition [of ex_inverse_path ex_classifying_renderer]
    getStencilSupport_precondition [of ex_path ex_classifying_renderer]
  by (simp add: onGetStencilSupport_def ex_classifying_renderer_def ex_renderer_def
      ex_classifier_def ex_inverse_path_def ex_path_def)

subsection \<open>The draw wrapper\<close>

text \<open>
  Claim C2. The debug build of \<^verbatim>\<open>drawPath\<close> reduces its request to a capability query
  (the provider's shader caps, the same view matrix, path, style and anti-alias flag, the
  user-stencil flag set exactly when the rule set is in use, the multisample flag read from
  the draw context) and asserts that \<^verbatim>\<open>canDrawPath\<close> accepts it; when the rule set is in
  use it also asserts that \<^verbatim>\<open>getStencilSupport\<close> answers \<^verbatim>\<open>kNoRestriction_StencilSupport\<close>
  and that the style is a simple fill. A debug call that returns has passed all of them and
  returns what \<^verbatim>\<open>onDrawPath\<close> returns; on a validated request each failing condition halts
  on its own assertion (lines 168, 170, 171). The optimised build checks none of this: it is
  \<^verbatim>\<open>onDrawPath\<close> alone.
\<close>

theorem drawPath_debug_assertions:
  "drawPath_canArgs args rp us dc =
      \<lparr>fShaderCaps = shaderCaps rp,
       CanDrawPathArgs.fViewMatrix = DrawPathArgs.fViewMatrix args,
       CanDrawPathArgs.fPath = DrawPathArgs.fPath args,
       CanDrawPathArgs.fStyle = DrawPathArgs.fStyle args,
       CanDrawPathArgs.fAntiAlias = DrawPathArgs.fAntiAlias args,
       fHasUserStencilSettings = (\<not> isUnused us),
       fIsStencilBufferMSAA = isStencilBufferMultisampled dc\<rparr>
   \<and> (drawPath True this args st = Inr res \<longrightarrow>
        (\<exists>rp us dc path style.
            DrawPathArgs.fResourceProvider args = Some rp
          \<and> fUserStencilSettings args = Some us
          \<and> DrawPathArgs.fDrawContext args = Some dc
          \<and> DrawPathArgs.fPath args = Some path
          \<and> DrawPathArgs.fStyle args = Some style
          \<and> canDrawPath True this (drawPath_canArgs args rp us dc) = Inr True
          \<and> (\<not> isUnused us \<longrightarrow>
                getStencilSupport True this path = Inr kNoRestriction_StencilSupport
                \<and> isSimpleFill style)
          \<and> res = onDrawPath this args st))
   \<and> (DrawPathArgs_validate args = Inr ()
        \<and> DrawPathArgs.fResourceProvider args = Some rp
        \<and> fUserStencilSettings args = Some us
        \<and> DrawPathArgs.fDrawContext args = Some dc
        \<and> DrawPathArgs.fPath args = Some path
        \<and> DrawPathArgs.fStyle args = Some style \<longrightarrow>
        (canDrawPath True this (drawPath_canArgs args rp us dc) = Inr False \<longrightarrow>
           drawPath True this args st = Inl (SkASSERT_failed 168))
        \<and> (canDrawPath True this (drawPath_canArgs args rp us dc) = Inr True
             \<and> \<not> isUnused us
             \<and> getStencilSupport True this path = Inr s
             \<and> s \<noteq> kNoRestriction_StencilSupport \<longrightarrow>
             drawPath True this args st = Inl (SkASSERT_failed 170))
        \<and> (canDrawPath True this (drawPath_canArgs args rp us dc) = Inr True
             \<and> \<not> isUnused us
             \<and> getStencilSupport True this path = Inr kNoRestriction_StencilSupport
             \<and> \<not> isSimpleFill style \<longrightarrow>
             drawPath True this args st = Inl (SkASSERT_failed 171))
        \<and> (canDrawPath True this (drawPath_canArgs args rp us dc) = Inr True
             \<and> (isUnused us
                 \<or> getStencilSupport True this path = Inr kNoRestriction_StencilSupport
                   \<and> isSimpleFill style) \<longrightarrow>
             drawPath True this args st = Inr (onDrawPath this args st)))
   \<and> drawPath False this args st = Inr (onDrawPath this args st)"
proof (intro conjI impI)
  show "drawPath_canArgs args rp us dc =
      \<lparr>fShaderCaps = shaderCaps rp,
       CanDrawPathArgs.fViewMatrix = DrawPathArgs.fViewMatrix args,
       CanDrawPathArgs.fPath = DrawPathArgs.fPath args,
       CanDrawPathArgs.fStyle = DrawPathArgs.fStyle args,
       CanDrawPathArgs.fAntiAlias = DrawPathArgs.fAntiAlias args,
       fHasUserStencilSettings = (\<not> isUnused us),
       fIsStencilBufferMSAA = isStencilBufferMultisampled dc\<rparr>"
    by (simp add: drawPath_canArgs_def)
next
  assume "drawPath True this args st = Inr res"
  from drawPath_debug_sound [OF this]
  show "\<exists>rp us dc path style.
            DrawPathArgs.fResourceProvider args = Some rp
          \<and> fUserStencilSettings args = Some us
          \<and> DrawPathArgs.fDrawContext args = Some dc
          \<and> DrawPathArgs.fPath args = Some path
          \<and> DrawPathArgs.fStyle args = Some style
          \<and> canDrawPath True this (drawPath_canArgs args rp us dc) = Inr True
          \<and> (\<not> isUnused us \<longrightarrow>
                getStencilSupport True this path = Inr kNoRestriction_StencilSupport
                \<and> isSimpleFill style)
          \<and> res = onDrawPath this args st"
    by blast
next
  show "drawPath False this args st = Inr (onDrawPath this args st)"
    by (rule drawPath_release)
qed (auto simp add: drawPath_debug_unfold)

theorem drawPath_debug_assertions_witness:
  "DrawPathArgs_validate ex_draw_args = Inr ()
   \<and> canDrawPath True ex_renderer (drawPath_canArgs ex_draw_args ex_provider kUnused ex_context)
       = Inr True
   \<and> isUnused kUnused
   \<and> drawPath True ex_renderer ex_draw_args 0 = Inr (True, 1)
   \<and> canDrawPath True ex_picky_renderer
        (drawPath_canArgs ex_stencilled_draw_args ex_provider kIncrementStencil ex_context)
       = Inr False
   \<and> drawPath True ex_picky_renderer ex_stencilled_draw_args 0 = Inl (SkASSERT_failed 168)
   \<and> getStencilSupport True ex_stencil_only_renderer ex_path = Inr kStencilOnly_StencilSupport
   \<and> drawPath True ex_stencil_only_renderer ex_stencilled_draw_args 0 = Inl (SkASSERT_failed 170)
   \<and> \<not> isSimpleFill ex_stroke
   \<and> drawPath True ex_renderer ex_stencilled_draw_args 0 = Inl (SkASSERT_failed 171)
   \<and> drawPath False ex_picky_renderer ex_stencilled_draw_args 0 = Inr (True, 1)"
proof -
  note A = drawPath_debug_assertions [where this = ex_renderer and args = ex_draw_args
        and st = "0::nat" and rp = ex_provider and us = kUnused and dc = ex_context
        and path = ex_path and style = ex_stroke and res = "(True, 1)"
        and s = kNoRestriction_StencilSupport,
        THEN conjunct2, THEN conjunct2, THEN conjunct1]
  from A ex_draw_args_fields ex_canDrawPath(1) ex_misc(1)
  have "drawPath True ex_renderer ex_draw_args 0 = Inr (onDrawPath ex_renderer ex_draw_args 0)"
    by blast
  then have a: "drawPath True ex_renderer ex_draw_args 0 = Inr (True, 1)"
    by (simp add: ex_onDrawPath)
  note B = drawPath_debug_assertions [where this = ex_picky_renderer
        and args = ex_stencilled_draw_args and st = "0::nat" and rp = ex_provider
        and us = kIncrementStencil and dc = ex_context and path = ex_path
        and style = ex_stroke and res = "(True, 1)" and s = kNoRestriction_StencilSupport,
        THEN conjunct2, THEN conjunct2, THEN conjunct1]
  from B ex_stencilled_draw_args_fields ex_canDrawPath(4)
  have b: "drawPath True ex_picky_renderer ex_stencilled_draw_args 0 = Inl (SkASSERT_failed 168)"
    by blast
  note C = drawPath_debug_assertions [where this = ex_stencil_only_renderer
        and args = ex_stencilled_draw_args and st = "0::nat" and rp = ex_provider
        and us = kIncrementStencil and dc = ex_context and path = ex_path
        and style = ex_stroke and res = "(True, 1)" and s = kStencilOnly_StencilSupport,
        THEN conjunct2, THEN conjunct2, THEN conjunct1]
  have "kStencilOnly_StencilSupport \<noteq> kNoRestriction_StencilSupport" by simp
  with C ex_stencilled_draw_args_fields ex_canDrawPath(3) ex_misc(2) ex_getStencilSupport(2)
  have c: "drawPath True ex_stencil_only_renderer ex_stencilled_draw_args 0
             = Inl (SkASSERT_failed 170)"
    by blast
  note D = drawPath_debug_assertions [where this = ex_renderer
        and args = ex_stencilled_draw_args and st = "0::nat" and rp = ex_provider
        and us = kIncrementStencil and dc = ex_context and path = ex_path
        and style = ex_stroke and res = "(True, 1)" and s = kNoRestriction_StencilSupport,
        THEN conjunct2, THEN conjunct2, THEN conjunct1]
  from D ex_stencilled_draw_args_fields ex_canDrawPath(2) ex_misc(2,3) ex_getStencilSupport(1)
  have d: "drawPath True ex_renderer ex_stencilled_draw_args 0 = Inl (SkASSERT_failed 171)"
    by blast
  note E = drawPath_debug_assertions [where this = ex_picky_renderer
        and args = ex_stencilled_draw_args and st = "0::nat" and rp = ex_provider
        and us = kIncrementStencil and dc = ex_context and path = ex_path
        and style = ex_stroke and res = "(True, 1)" and s = kNoRestriction_StencilSupport,
        THEN conjunct2, THEN conjunct2, THEN conjunct2]
  from E have e: "drawPath False ex_picky_renderer ex_stencilled_draw_args 0 = Inr (True, 1)"
    by (simp add: ex_onDrawPath)
  from a b c d e show ?thesis
    using ex_draw_args_fields(1) ex_canDrawPath(1,4) ex_misc(1,3) ex_getStencilSupport(2)
    by blast
qed

subsection \<open>The stencil wrapper\<close>

text \<open>
  Claim C8, as stated, fails in the debug build: \<^verbatim>\<open>stencilPath\<close> validates its arguments
  (line 207) before it looks at the stencil support. Here the renderer supports the path
  (\<^verbatim>\<open>kStencilOnly_StencilSupport\<close>, so the precondition holds) and overrides
  \<^verbatim>\<open>onStencilPath\<close>, which would return state 100; but the path is empty, the call halts on
  the assertion of line 198 and the renderer's implementation is never invoked.
\<close>

theorem stencilPath_empty_path_halts_before_dispatch:
  "StencilPathArgs.fPath ex_empty_stencil_args = Some ex_empty_path
   \<and> getStencilSupport True ex_classifying_renderer ex_empty_path
       = Inr kStencilOnly_StencilSupport
   \<and> kStencilOnly_StencilSupport \<noteq> kNoSupport_StencilSupport
   \<and> onStencilPath True ex_uninit ex_classifying_renderer ex_empty_stencil_args 0 = Inr 100
   \<and> stencilPath True ex_uninit ex_classifying_renderer ex_empty_stencil_args 0
       = Inl (SkASSERT_failed 198)"
  by (simp add: ex_stencil_args_fields ex_getStencilSupport_more stencilPath_def
      onStencilPath_def ex_overrides ex_stencil_def)


text \<open>
  Claim C8, amended. In the debug build every call for a path whose stencil support is
  \<^verbatim>\<open>kNoSupport_StencilSupport\<close> halts on an assertion, and on arguments that pass
  \<^verbatim>\<open>validate()\<close> it is the assertion of line 208. When the support is anything else, that
  assertion never fails, in either build; and on arguments that pass \<^verbatim>\<open>validate()\<close>, with
  \<^verbatim>\<open>getStencilSupport\<close> returning a level other than no-support, the call is exactly the
  renderer's \<^verbatim>\<open>onStencilPath\<close> (an override, where there is one, is applied to the same
  arguments and state). The optimised build checks nothing and always invokes
  \<^verbatim>\<open>onStencilPath\<close>.
\<close>

theorem stencilPath_precondition:
  "(StencilPathArgs.fPath args = Some path
      \<and> getStencilSupport True this path = Inr kNoSupport_StencilSupport \<longrightarrow>
      (\<exists>e. stencilPath True uninit this args st = Inl e))
   \<and> (StencilPathArgs.fPath args = Some path
        \<and> onGetStencilSupport this path \<noteq> kNoSupport_StencilSupport \<longrightarrow>
        stencilPath SK_DEBUG uninit this args st \<noteq> Inl (SkASSERT_failed 208))
   \<and> (StencilPathArgs_validate args = Inr () \<and> StencilPathArgs.fPath args = Some path \<longrightarrow>
        (getStencilSupport True this path = Inr kNoSupport_StencilSupport \<longrightarrow>
           stencilPath True uninit this args st = Inl (SkASSERT_failed 208))
        \<and> (getStencilSupport True this path = Inr s \<and> s \<noteq> kNoSupport_StencilSupport \<longrightarrow>
             stencilPath True uninit this args st = onStencilPath True uninit this args st))
   \<and> (onStencilPath_override this = Some f \<longrightarrow>
        onStencilPath SK_DEBUG uninit this args st = Inr (f args st))
   \<and> stencilPath False uninit this args st = onStencilPath False uninit this args st"
proof (intro conjI impI)
  assume a: "StencilPathArgs.fPath args = Some path
      \<and> getStencilSupport True this path = Inr kNoSupport_StencilSupport"
  show "\<exists>e. stencilPath True uninit this args st = Inl e"
  proof (cases "StencilPathArgs_validate args")
    case (Inl e)
    then show ?thesis by (simp add: stencilPath_def)
  next
    case (Inr u)
    then have "StencilPathArgs_validate args = Inr ()" by simp
    from a show ?thesis
      by (simp add: stencilPath_debug_unfold [OF \<open>StencilPathArgs_validate args = Inr ()\<close>
            conjunct1 [OF a]])
  qed
next
  assume a: "StencilPathArgs.fPath args = Some path
        \<and> onGetStencilSupport this path \<noteq> kNoSupport_StencilSupport"
  show "stencilPath SK_DEBUG uninit this args st \<noteq> Inl (SkASSERT_failed 208)"
  proof (cases SK_DEBUG)
    case False
    then show ?thesis by (simp add: stencilPath_release onStencilPath_not_208)
  next
    case True
    show ?thesis
    proof (cases "StencilPathArgs_validate args")
      case (Inl e)
      then show ?thesis using True
        by (auto simp add: stencilPath_def StencilPathArgs_validate_def
            split: if_splits option.splits)
    next
      case (Inr u)
      then have "StencilPathArgs_validate args = Inr ()" by simp
      from a True show ?thesis
        by (simp add: stencilPath_debug_unfold [OF \<open>StencilPathArgs_validate args = Inr ()\<close>
              conjunct1 [OF a]] getStencilSupport_def onStencilPath_not_208)
    qed
  qed
next
  assume "onStencilPath_override this = Some f"
  then show "onStencilPath SK_DEBUG uninit this args st = Inr (f args st)"
    by (simp add: onStencilPath_def)
next
  show "stencilPath False uninit this args st = onStencilPath False uninit this args st"
    by (rule stencilPath_release)
qed (simp_all add: stencilPath_debug_unfold)


theorem stencilPath_precondition_witness:
  "StencilPathArgs_validate ex_stencil_args = Inr ()
   \<and> StencilPathArgs.fPath ex_stencil_args = Some ex_path
   \<and> getStencilSupport True ex_no_support_renderer ex_path = Inr kNoSupport_StencilSupport
   \<and> stencilPath True ex_uninit ex_no_support_renderer ex_stencil_args 0
       = Inl (SkASSERT_failed 208)
   \<and> getStencilSupport True ex_classifying_renderer ex_path = Inr kStencilOnly_StencilSupport
   \<and> onStencilPath_override ex_classifying_renderer = Some ex_stencil
   \<and> stencilPath True ex_uninit ex_classifying_renderer ex_stencil_args 0 = Inr 100"
proof -
  note A = stencilPath_precondition [where args = ex_stencil_args and path = ex_path
      and this = ex_no_support_renderer and uninit = ex_uninit and st = "0::nat"
      and SK_DEBUG = True and s = kNoSupport_StencilSupport and f = ex_stencil,
      THEN conjunct2, THEN conjunct2, THEN conjunct1]
  from A ex_stencil_args_fields(1,2) ex_getStencilSupport_more(1)
  have a: "stencilPath True ex_uninit ex_no_support_renderer ex_stencil_args 0
             = Inl (SkASSERT_failed 208)"
    by blast
  note B = stencilPath_precondition [where args = ex_stencil_args and path = ex_path
      and this = ex_classifying_renderer and uninit = ex_uninit and st = "0::nat"
      and SK_DEBUG = True and s = kStencilOnly_StencilSupport and f = ex_stencil]
  have ne: "kStencilOnly_StencilSupport \<noteq> kNoSupport_StencilSupport" by simp
  from B [THEN conjunct2, THEN conjunct2, THEN conjunct1]
    ex_stencil_args_fields(1,2) ex_getStencilSupport_more(2) ne
  have "stencilPath True ex_uninit ex_classifying_renderer ex_stencil_args 0
          = onStencilPath True ex_uninit ex_classifying_renderer ex_stencil_args 0"
    by blast
  moreover from B [THEN conjunct2, THEN conjunct2, THEN conjunct2, THEN conjunct1]
    ex_overrides(1)
  have "onStencilPath True ex_uninit ex_classifying_renderer ex_stencil_args 0
          = Inr (ex_stencil ex_stencil_args 0)"
    by blast
  ultimately have b: "stencilPath True ex_uninit ex_classifying_renderer ex_stencil_args 0
                        = Inr 100"
    by (simp add: ex_stencil_def)
  from a b show ?thesis
    using ex_stencil_args_fields(1,2) ex_getStencilSupport_more(1,2) ex_overrides(1)
    by blast
qed

subsection \<open>The default stencil body\<close>

text \<open>
  Claim C1. For a renderer that does not override \<^verbatim>\<open>onStencilPath\<close>, the stencil executor
  builds one draw request -- the resource provider, draw context, view matrix and path of
  the stencil request, a default paint, the rule set
  \<^verbatim>\<open>StaticInit<0xffff, kAlways, 0xffff, kReplace, kReplace, 0xffff>\<close> (always pass, replace
  with the non-zero reference, and in use), \<^verbatim>\<open>GrColor_WHITE\<close> (all four channels 255), the
  simple-fill style, anti-aliasing and gamma correction off -- and is \<^verbatim>\<open>drawPath\<close> on exactly
  that request, with the boolean result dropped. The clip of the request is the one member
  the body never assigns: it is whatever the local held. In the optimised build
  \<^verbatim>\<open>stencilPath\<close> is therefore \<^verbatim>\<open>onDrawPath\<close> on that request. In the debug build
  \<^verbatim>\<open>stencilPath\<close> returns a state exactly when \<^verbatim>\<open>drawPath\<close> on that request returns it, and
  once the assertions of the wrapper pass (validated arguments, a stencil support other
  than no-support) it is that \<^verbatim>\<open>drawPath\<close> call, halts included.
\<close>

theorem onStencilPath_default_is_drawPath:
  "onStencilPath_override this = None \<Longrightarrow>
   request =
     \<lparr>DrawPathArgs.fResourceProvider = StencilPathArgs.fResourceProvider args,
      fPaint = Some GrPaint_default,
      fUserStencilSettings = Some (StaticInit 0xffff kAlways 0xffff kReplace kReplace 0xffff),
      DrawPathArgs.fDrawContext = StencilPathArgs.fDrawContext args,
      DrawPathArgs.fClip = DrawPathArgs.fClip uninit,
      fColor = GrColor_WHITE,
      DrawPathArgs.fViewMatrix = StencilPathArgs.fViewMatrix args,
      DrawPathArgs.fPath = StencilPathArgs.fPath args,
      DrawPathArgs.fStyle = Some SimpleFill,
      DrawPathArgs.fAntiAlias = False,
      fGammaCorrect = False\<rparr> \<Longrightarrow>
   onStencilPath SK_DEBUG uninit this args st =
       (case drawPath SK_DEBUG this request st of
          Inl e \<Rightarrow> Inl e
        | Inr (drawn, st') \<Rightarrow> Inr st')
   \<and> stencilPath False uninit this args st = Inr (snd (onDrawPath this request st))
   \<and> (stencilPath True uninit this args st = Inr final \<longleftrightarrow>
        (\<exists>drawn. drawPath True this request st = Inr (drawn, final)))
   \<and> (StencilPathArgs_validate args = Inr ()
        \<and> StencilPathArgs.fPath args = Some path
        \<and> getStencilSupport True this path = Inr s
        \<and> s \<noteq> kNoSupport_StencilSupport \<longrightarrow>
        stencilPath True uninit this args st =
          (case drawPath True this request st of
             Inl e \<Rightarrow> Inl e
           | Inr (drawn, st') \<Rightarrow> Inr st'))
   \<and> \<not> isUnused (StaticInit 0xffff kAlways 0xffff kReplace kReplace 0xffff)
   \<and> (0xffff :: 16 word) \<noteq> 0
   \<and> GrColorUnpackR (fColor request) = 255 \<and> GrColorUnpackG (fColor request) = 255
   \<and> GrColorUnpackB (fColor request) = 255 \<and> GrColorUnpackA (fColor request) = 255
   \<and> isSimpleFill SimpleFill"
proof -
  assume no: "onStencilPath_override this = None"
  assume "request =
     \<lparr>DrawPathArgs.fResourceProvider = StencilPathArgs.fResourceProvider args,
      fPaint = Some GrPaint_default,
      fUserStencilSettings = Some (StaticInit 0xffff kAlways 0xffff kReplace kReplace 0xffff),
      DrawPathArgs.fDrawContext = StencilPathArgs.fDrawContext args,
      DrawPathArgs.fClip = DrawPathArgs.fClip uninit,
      fColor = GrColor_WHITE,
      DrawPathArgs.fViewMatrix = StencilPathArgs.fViewMatrix args,
      DrawPathArgs.fPath = StencilPathArgs.fPath args,
      DrawPathArgs.fStyle = Some SimpleFill,
      DrawPathArgs.fAntiAlias = False,
      fGammaCorrect = False\<rparr>"
  then have req: "request = onStencilPath_drawArgs uninit args"
    by (simp only: onStencilPath_drawArgs_literal)
  have col: "fColor request = GrColor_WHITE"
    by (simp add: req onStencilPath_drawArgs_literal)
  have fields: "DrawPathArgs.fPath request = StencilPathArgs.fPath args"
    "fUserStencilSettings request = Some kIncrementStencil"
    "DrawPathArgs.fResourceProvider request = StencilPathArgs.fResourceProvider args"
    "DrawPathArgs.fDrawContext request = StencilPathArgs.fDrawContext args"
    "DrawPathArgs.fViewMatrix request = StencilPathArgs.fViewMatrix args"
    by (simp_all add: req onStencilPath_drawArgs_literal kIncrementStencil_def)
  have d: "onStencilPath SK_DEBUG uninit this args st =
       (case drawPath SK_DEBUG this request st of
          Inl e \<Rightarrow> Inl e
        | Inr (drawn, st') \<Rightarrow> Inr st')" for SK_DEBUG
    unfolding req by (rule onStencilPath_default [OF no])
  have r: "stencilPath False uninit this args st = Inr (snd (onDrawPath this request st))"
    by (simp add: stencilPath_release d drawPath_release split: prod.splits)
  have t: "\<exists>drawn. drawPath True this request st = Inr (drawn, final)"
    if "stencilPath True uninit this args st = Inr final"
    using stencilPath_debug_halts_or_dispatches [of uninit this args st] that
    by (auto simp add: d split: sum.splits prod.splits)
  have u: "stencilPath True uninit this args st = Inr final"
    if dr: "drawPath True this request st = Inr (drawn, final)" for drawn
  proof -
    from drawPath_debug_sound [OF dr] fields(1,2) ex_misc(2)
    obtain path where p: "StencilPathArgs.fPath args = Some path"
      and dv: "DrawPathArgs_validate request = Inr ()"
      and g: "getStencilSupport True this path = Inr kNoRestriction_StencilSupport"
      by auto
    from dv fields p have v: "StencilPathArgs_validate args = Inr ()"
      by (auto simp add: DrawPathArgs_validate_ok StencilPathArgs_validate_ok)
    show ?thesis
      by (simp add: stencilPath_debug_unfold [OF v p] g d dr)
  qed
  have w: "stencilPath True uninit this args st =
          (case drawPath True this request st of
             Inl e \<Rightarrow> Inl e
           | Inr (drawn, st') \<Rightarrow> Inr st')"
    if "StencilPathArgs_validate args = Inr ()" "StencilPathArgs.fPath args = Some path"
      "getStencilSupport True this path = Inr s" "s \<noteq> kNoSupport_StencilSupport"
    using that by (simp add: stencilPath_debug_unfold [OF that(1,2)] d)
  have tu: "stencilPath True uninit this args st = Inr final \<longleftrightarrow>
        (\<exists>drawn. drawPath True this request st = Inr (drawn, final))"
    using t u by blast
  have rest: "\<not> isUnused (StaticInit 0xffff kAlways 0xffff kReplace kReplace 0xffff)
     \<and> (0xffff :: 16 word) \<noteq> 0
     \<and> GrColorUnpackR (fColor request) = 255 \<and> GrColorUnpackG (fColor request) = 255
     \<and> GrColorUnpackB (fColor request) = 255 \<and> GrColorUnpackA (fColor request) = 255
     \<and> isSimpleFill SimpleFill"
    by (simp add: col white_channels ex_misc isUnused_def)
  from d [of SK_DEBUG] r tu w rest show ?thesis by blast
qed

theorem onStencilPath_default_is_drawPath_witness:
  "onStencilPath_override ex_renderer = None
   \<and> onStencilPath True ex_uninit ex_renderer ex_stencil_args 0 = Inr 1
   \<and> drawPath True ex_renderer (onStencilPath_drawArgs ex_uninit ex_stencil_args) 0
       = Inr (True, 1)
   \<and> stencilPath True ex_uninit ex_renderer ex_stencil_args 0 = Inr 1
   \<and> StencilPathArgs_validate ex_stencil_args = Inr ()
   \<and> StencilPathArgs.fPath ex_stencil_args = Some ex_path
   \<and> getStencilSupport True ex_renderer ex_path = Inr kNoRestriction_StencilSupport
   \<and> stencilPath True ex_uninit ex_renderer ex_stencil_args 0
       = (case drawPath True ex_renderer (onStencilPath_drawArgs ex_uninit ex_stencil_args) 0 of
            Inl e \<Rightarrow> Inl e
          | Inr (drawn, st') \<Rightarrow> Inr st')
   \<and> stencilPath False ex_uninit ex_renderer ex_stencil_args 0 = Inr 1
   \<and> DrawPathArgs.fClip (onStencilPath_drawArgs ex_uninit ex_stencil_args) = Some (GrClip 7)"
proof -
  note T = onStencilPath_default_is_drawPath [where this = ex_renderer
      and request = "onStencilPath_drawArgs ex_uninit ex_stencil_args"
      and args = ex_stencil_args and uninit = ex_uninit and st = "0::nat" and final = "1::nat"
      and SK_DEBUG = True and path = ex_path and s = kNoRestriction_StencilSupport,
      OF ex_overrides(2) onStencilPath_drawArgs_literal]
  from T [THEN conjunct1]
  have a: "onStencilPath True ex_uninit ex_renderer ex_stencil_args 0 = Inr 1"
    by (simp add: ex_request_drawPath)
  from T [THEN conjunct2, THEN conjunct1]
  have b: "stencilPath False ex_uninit ex_renderer ex_stencil_args 0 = Inr 1"
    by (simp add: ex_onDrawPath)
  from T [THEN conjunct2, THEN conjunct2, THEN conjunct1] ex_request_drawPath(1)
  have c: "stencilPath True ex_uninit ex_renderer ex_stencil_args 0 = Inr 1"
    by blast
  have ne: "kNoRestriction_StencilSupport \<noteq> kNoSupport_StencilSupport" by simp
  from T [THEN conjunct2, THEN conjunct2, THEN conjunct2, THEN conjunct1]
    ex_stencil_args_fields(1,2) ex_getStencilSupport(1) ne
  have e: "stencilPath True ex_uninit ex_renderer ex_stencil_args 0
       = (case drawPath True ex_renderer (onStencilPath_drawArgs ex_uninit ex_stencil_args) 0 of
            Inl e \<Rightarrow> Inl e
          | Inr (drawn, st') \<Rightarrow> Inr st')"
    by blast
  have f: "DrawPathArgs.fClip (onStencilPath_drawArgs ex_uninit ex_stencil_args)
             = Some (GrClip 7)"
    by (simp add: onStencilPath_drawArgs_literal ex_uninit_def)
  from a b c e f ex_overrides(2) ex_request_drawPath(1) ex_stencil_args_fields(1,2)
    ex_getStencilSupport(1)
  show ?thesis by blast
qed

text \<open>
  Claim C9, as stated, fails in the debug build. The rule set of the default request is in
  use, so the \<^verbatim>\<open>drawPath\<close> that the default body calls asserts
  \<^verbatim>\<open>kNoRestriction_StencilSupport\<close> (line 170): a renderer that reports
  \<^verbatim>\<open>kStencilOnly_StencilSupport\<close> and inherits the default body halts there.
\<close>

theorem default_onStencilPath_checked_in_debug:
  "onStencilPath_override ex_stencil_only_renderer = None
   \<and> onGetStencilSupport ex_stencil_only_renderer ex_path = kStencilOnly_StencilSupport
   \<and> StencilPathArgs_validate ex_stencil_args = Inr ()
   \<and> StencilPathArgs.fPath ex_stencil_args = Some ex_path
   \<and> stencilPath True ex_uninit ex_stencil_only_renderer ex_stencil_args 0
       = Inl (SkASSERT_failed 170)"
  by (simp add: ex_overrides ex_stencil_args_fields ex_getStencilSupport
      stencilPath_debug_unfold [OF ex_stencil_args_fields(1,2)]
      onStencilPath_default [OF ex_overrides(3)] ex_request_drawPath)


text \<open>
  Claim C9, amended. For a renderer that reports \<^verbatim>\<open>kStencilOnly_StencilSupport\<close> for the path
  and does not override \<^verbatim>\<open>onStencilPath\<close>: the optimised build checks nothing and runs
  \<^verbatim>\<open>onDrawPath\<close> on the default request; in the debug build every \<^verbatim>\<open>stencilPath\<close> call
  halts on an assertion, and when the arguments and the request validate, the path is not
  inverse-filled and the renderer accepts the derived capability query, it is the
  stencil-support assertion of \<^verbatim>\<open>drawPath\<close> on line 170.
\<close>

theorem default_onStencilPath_stencil_only:
  "onStencilPath_override this = None \<Longrightarrow>
   StencilPathArgs.fPath args = Some path \<Longrightarrow>
   onGetStencilSupport this path = kStencilOnly_StencilSupport \<Longrightarrow>
   (\<exists>e. stencilPath True uninit this args st = Inl e)
   \<and> (StencilPathArgs_validate args = Inr ()
        \<and> \<not> isInverseFillType path
        \<and> DrawPathArgs_validate (onStencilPath_drawArgs uninit args) = Inr ()
        \<and> StencilPathArgs.fResourceProvider args = Some rp
        \<and> StencilPathArgs.fDrawContext args = Some dc
        \<and> canDrawPath True this
             (drawPath_canArgs (onStencilPath_drawArgs uninit args) rp kIncrementStencil dc)
            = Inr True \<longrightarrow>
        stencilPath True uninit this args st = Inl (SkASSERT_failed 170))
   \<and> stencilPath False uninit this args st
       = Inr (snd (onDrawPath this (onStencilPath_drawArgs uninit args) st))"
proof -
  assume no: "onStencilPath_override this = None"
    and p: "StencilPathArgs.fPath args = Some path"
    and so: "onGetStencilSupport this path = kStencilOnly_StencilSupport"
  let ?req = "onStencilPath_drawArgs uninit args"
  have fields: "DrawPathArgs.fPath ?req = Some path"
    "fUserStencilSettings ?req = Some kIncrementStencil"
    "DrawPathArgs.fStyle ?req = Some SimpleFill"
    "DrawPathArgs.fResourceProvider ?req = StencilPathArgs.fResourceProvider args"
    "DrawPathArgs.fDrawContext ?req = StencilPathArgs.fDrawContext args"
    by (simp_all add: onStencilPath_drawArgs_literal p kIncrementStencil_def)
  have halts: "\<exists>e. drawPath True this ?req st = Inl e"
  proof (cases "drawPath True this ?req st")
    case (Inl e)
    then show ?thesis by simp
  next
    case (Inr res)
    from drawPath_debug_sound [OF this] fields so ex_misc(2)
    have False by (auto simp add: getStencilSupport_def split: if_splits)
    then show ?thesis ..
  qed
  have a: "\<exists>e. stencilPath True uninit this args st = Inl e"
    using stencilPath_debug_halts_or_dispatches [of uninit this args st] halts
    by (auto simp add: onStencilPath_default [OF no])
  have b: "stencilPath True uninit this args st = Inl (SkASSERT_failed 170)"
    if v: "StencilPathArgs_validate args = Inr ()"
      and ni: "\<not> isInverseFillType path"
      and dv: "DrawPathArgs_validate ?req = Inr ()"
      and rp: "StencilPathArgs.fResourceProvider args = Some rp"
      and dc: "StencilPathArgs.fDrawContext args = Some dc"
      and can: "canDrawPath True this (drawPath_canArgs ?req rp kIncrementStencil dc) = Inr True"
  proof -
    have g: "getStencilSupport True this path = Inr kStencilOnly_StencilSupport"
      using ni so by (simp add: getStencilSupport_def)
    have "drawPath True this ?req st = Inl (SkASSERT_failed 170)"
      using can g ex_misc(2)
      by (simp add: drawPath_debug_unfold [OF dv _ fields(2) _ fields(1) fields(3)]
          fields rp dc)
    then show ?thesis
      by (simp add: stencilPath_debug_unfold [OF v p] g onStencilPath_default [OF no])
  qed
  have c: "stencilPath False uninit this args st = Inr (snd (onDrawPath this ?req st))"
    by (simp add: stencilPath_release onStencilPath_default [OF no] drawPath_release
        split: prod.splits)
  from a b c show ?thesis by blast
qed


theorem default_onStencilPath_stencil_only_witness:
  "onStencilPath_override ex_stencil_only_renderer = None
   \<and> StencilPathArgs.fPath ex_stencil_args = Some ex_path
   \<and> onGetStencilSupport ex_stencil_only_renderer ex_path = kStencilOnly_StencilSupport
   \<and> StencilPathArgs_validate ex_stencil_args = Inr ()
   \<and> stencilPath True ex_uninit ex_stencil_only_renderer ex_stencil_args 0
       = Inl (SkASSERT_failed 170)
   \<and> stencilPath False ex_uninit ex_stencil_only_renderer ex_stencil_args 0 = Inr 1"
proof -
  note T = default_onStencilPath_stencil_only [where this = ex_stencil_only_renderer
      and args = ex_stencil_args and path = ex_path and uninit = ex_uninit and st = "0::nat"
      and rp = ex_provider and dc = ex_context,
      OF ex_overrides(3) ex_stencil_args_fields(2) ex_overrides(4)]
  have ni: "\<not> isInverseFillType ex_path" by (simp add: ex_path_def)
  from T [THEN conjunct2, THEN conjunct1] ex_stencil_args_fields(1,3,4) ni
    ex_request_fields(1) ex_request_canDrawPath(2)
  have a: "stencilPath True ex_uninit ex_stencil_only_renderer ex_stencil_args 0
             = Inl (SkASSERT_failed 170)"
    by blast
  from T [THEN conjunct2, THEN conjunct2]
  have b: "stencilPath False ex_uninit ex_stencil_only_renderer ex_stencil_args 0 = Inr 1"
    by (simp add: ex_onDrawPath)
  from a b ex_overrides(3,4) ex_stencil_args_fields(1,2) show ?thesis by blast
qed

subsection \<open>The hairline test\<close>

text \<open>
  Claim C4. A style with a path effect is answered \<open>False\<close>, whatever the matrix, and the
  store is left alone. A style without path effect whose stroke is hairline-styled is
  answered \<open>True\<close>, and the value 1 is written to the coverage cell. Any other style is
  answered \<open>True\<close> only if its stroke style is \<^verbatim>\<open>kStroke_Style\<close> and
  \<^verbatim>\<open>SkDrawTreatAAStrokeAsHairline\<close>, given the stroke width and the matrix, accepts; for such a
  stroke the answer and the coverage written are the ones of that test, and for every other
  stroke style the answer is \<open>False\<close>.
\<close>

theorem IsStrokeHairlineOrEquivalent_cases:
  "(pathEffect style \<noteq> None \<longrightarrow>
      IsStrokeHairlineOrEquivalent treatAA style matrix outCoverage mem = (False, mem))
   \<and> (pathEffect style = None \<and> isHairlineStyle (strokeRec style) \<longrightarrow>
        IsStrokeHairlineOrEquivalent treatAA style matrix (Some a) mem = (True, mem(a := 1))
        \<and> fst (IsStrokeHairlineOrEquivalent treatAA style matrix outCoverage mem))
   \<and> (pathEffect style = None \<and> \<not> isHairlineStyle (strokeRec style) \<longrightarrow>
        (fst (IsStrokeHairlineOrEquivalent treatAA style matrix outCoverage mem) \<longrightarrow>
           getStyle (strokeRec style) = kStroke_Style
           \<and> fst (treatAA (getWidth (strokeRec style)) matrix outCoverage mem))
        \<and> (getStyle (strokeRec style) = kStroke_Style \<longrightarrow>
             IsStrokeHairlineOrEquivalent treatAA style matrix outCoverage mem
               = treatAA (getWidth (strokeRec style)) matrix outCoverage mem)
        \<and> (getStyle (strokeRec style) \<noteq> kStroke_Style \<longrightarrow>
             IsStrokeHairlineOrEquivalent treatAA style matrix outCoverage mem = (False, mem)))"
  by (cases outCoverage)
     (auto simp add: IsStrokeHairlineOrEquivalent_def SK_Scalar1_def Let_def)

theorem IsStrokeHairlineOrEquivalent_cases_witness:
  "pathEffect ex_dashed \<noteq> None
   \<and> IsStrokeHairlineOrEquivalent ex_treatAA ex_dashed ex_matrix (Some 3) ex_store
       = (False, ex_store)
   \<and> pathEffect ex_hairline = None \<and> isHairlineStyle (strokeRec ex_hairline)
   \<and> IsStrokeHairlineOrEquivalent ex_treatAA ex_hairline ex_matrix (Some 3) ex_store
       = (True, ex_store(3 := 1))
   \<and> pathEffect ex_thin_stroke = None \<and> \<not> isHairlineStyle (strokeRec ex_thin_stroke)
   \<and> getStyle (strokeRec ex_thin_stroke) = kStroke_Style
   \<and> IsStrokeHairlineOrEquivalent ex_treatAA ex_thin_stroke ex_matrix (Some 3) ex_store
       = (True, ex_store(3 := 1 / 2))
   \<and> getStyle (strokeRec SimpleFill) \<noteq> kStroke_Style
   \<and> IsStrokeHairlineOrEquivalent ex_treatAA SimpleFill ex_matrix (Some 3) ex_store
       = (False, ex_store)"
proof -
  note A = IsStrokeHairlineOrEquivalent_cases [where style = ex_dashed and treatAA = ex_treatAA
      and matrix = ex_matrix and outCoverage = "Some 3" and mem = ex_store and a = 3]
  from A [THEN conjunct1] ex_styles(1)
  have a: "IsStrokeHairlineOrEquivalent ex_treatAA ex_dashed ex_matrix (Some 3) ex_store
             = (False, ex_store)"
    by blast
  note B = IsStrokeHairlineOrEquivalent_cases [where style = ex_hairline
      and treatAA = ex_treatAA and matrix = ex_matrix and outCoverage = "Some 3"
      and mem = ex_store and a = 3]
  from B [THEN conjunct2, THEN conjunct1] ex_styles(2,3)
  have b: "IsStrokeHairlineOrEquivalent ex_treatAA ex_hairline ex_matrix (Some 3) ex_store
             = (True, ex_store(3 := 1))"
    by blast
  note C = IsStrokeHairlineOrEquivalent_cases [where style = ex_thin_stroke
      and treatAA = ex_treatAA and matrix = ex_matrix and outCoverage = "Some 3"
      and mem = ex_store and a = 3]
  from C [THEN conjunct2, THEN conjunct2] ex_styles(4,5,6)
  have "IsStrokeHairlineOrEquivalent ex_treatAA ex_thin_stroke ex_matrix (Some 3) ex_store
          = ex_treatAA (getWidth (strokeRec ex_thin_stroke)) ex_matrix (Some 3) ex_store"
    by blast
  then have c: "IsStrokeHairlineOrEquivalent ex_treatAA ex_thin_stroke ex_matrix (Some 3)
                  ex_store = (True, ex_store(3 := 1 / 2))"
    by (simp add: ex_styles(7) ex_treatAA_thin)
  note D = IsStrokeHairlineOrEquivalent_cases [where style = SimpleFill
      and treatAA = ex_treatAA and matrix = ex_matrix and outCoverage = "Some 3"
      and mem = ex_store and a = 3]
  from D [THEN conjunct2, THEN conjunct2] ex_styles(8,9,10)
  have d: "IsStrokeHairlineOrEquivalent ex_treatAA SimpleFill ex_matrix (Some 3) ex_store
             = (False, ex_store)"
    by blast
  from a b c d ex_styles show ?thesis by blast
qed

subsection \<open>The device bounds\<close>

text \<open>
  Claim C5. For an inverse-fill path \<^verbatim>\<open>GetPathDevBounds\<close> returns the rectangle with corners
  (0, 0) and (devW, devH), whose points are exactly those of [0, devW) x [0, devH); the
  result is the same for every inverse-fill path. For any other path it returns the
  matrix's image of the path's bounds, whatever the device size: it is not clipped to the
  device.
\<close>

theorem GetPathDevBounds_cases:
  "(isInverseFillType path \<longrightarrow>
      GetPathDevBounds mapRect path devW devH matrix
        = \<lparr>fLeft = 0, fTop = 0, fRight = of_int devW, fBottom = of_int devH\<rparr>
      \<and> (SkRect_contains (GetPathDevBounds mapRect path devW devH matrix) x y
           \<longleftrightarrow> 0 \<le> x \<and> x < of_int devW \<and> 0 \<le> y \<and> y < of_int devH)
      \<and> (isInverseFillType other \<longrightarrow>
           GetPathDevBounds mapRect other devW devH matrix
             = GetPathDevBounds mapRect path devW devH matrix))
   \<and> (\<not> isInverseFillType path \<longrightarrow>
        GetPathDevBounds mapRect path devW devH matrix = mapRect matrix (getBounds path)
        \<and> GetPathDevBounds mapRect path otherW otherH matrix
            = GetPathDevBounds mapRect path devW devH matrix)"
  by (auto simp add: GetPathDevBounds_def MakeWH_def SkIntToScalar_def SkRect_contains_def)

theorem GetPathDevBounds_cases_witness:
  "isInverseFillType ex_inverse_path
   \<and> GetPathDevBounds ex_mapRect ex_inverse_path 640 480 ex_matrix
       = \<lparr>fLeft = 0, fTop = 0, fRight = 640, fBottom = 480\<rparr>
   \<and> \<not> isInverseFillType ex_path
   \<and> GetPathDevBounds ex_mapRect ex_path 640 480 ex_matrix
       = \<lparr>fLeft = - 5, fTop = - 5, fRight = 2000, fBottom = 10\<rparr>"
proof -
  have i: "isInverseFillType ex_inverse_path" "\<not> isInverseFillType ex_path"
    by (simp_all add: ex_inverse_path_def ex_path_def)
  note A = GetPathDevBounds_cases [where path = ex_inverse_path and mapRect = ex_mapRect
      and devW = 640 and devH = 480 and matrix = ex_matrix and x = 0 and y = 0
      and other = ex_inverse_path and otherW = 0 and otherH = 0]
  from A [THEN conjunct1] i(1)
  have a: "GetPathDevBounds ex_mapRect ex_inverse_path 640 480 ex_matrix
       = \<lparr>fLeft = 0, fTop = 0, fRight = 640, fBottom = 480\<rparr>"
    by simp
  note B = GetPathDevBounds_cases [where path = ex_path and mapRect = ex_mapRect
      and devW = 640 and devH = 480 and matrix = ex_matrix and x = 0 and y = 0
      and other = ex_inverse_path and otherW = 0 and otherH = 0]
  from B [THEN conjunct2] i(2)
  have "GetPathDevBounds ex_mapRect ex_path 640 480 ex_matrix
          = ex_mapRect ex_matrix (getBounds ex_path)"
    by blast
  then have b: "GetPathDevBounds ex_mapRect ex_path 640 480 ex_matrix
       = \<lparr>fLeft = - 5, fTop = - 5, fRight = 2000, fBottom = 10\<rparr>"
    by (simp add: ex_mapRect_def ex_path_def ex_bounds_def)
  from a b i show ?thesis by blast
qed

end
